theory Spec2Isabelle
  imports Main "HOL-Library.Sublist"
begin

section \<open>JavaScript values used by the server\<close>

text \<open>
  The embedding follows \<^verbatim>\<open>src/direct-executor-server.js\<close>.  A JavaScript string is a
  \<^typ>\<open>string\<close>, read as its sequence of code units (the model covers code units below 256,
  which is all the fixed texts of the server need).  Numbers that the server handles
  (timestamps, timeouts, exit codes, \<^verbatim>\<open>topK\<close>) are integers.  A field that may be
  \<^verbatim>\<open>undefined\<close> is an \<^typ>\<open>'a option\<close>.
\<close>

text \<open>\<^verbatim>\<open>String.prototype.includes\<close>: the marker occurs at some position of the text.\<close>

fun str_includes :: "string \<Rightarrow> string \<Rightarrow> bool" where
  "str_includes [] m = (m = [])"
| "str_includes (c # cs) m = (prefix m (c # cs) \<or> str_includes cs m)"

text \<open>White space removed by \<^verbatim>\<open>String.prototype.trim\<close>, among the code units below 256:
  TAB, LF, VT, FF, CR, SPACE and NBSP.\<close>

definition is_ws :: "char \<Rightarrow> bool" where
  "is_ws c = (c \<in> set [CHR 0x09, CHR 0x0A, CHR 0x0B, CHR 0x0C, CHR 0x0D, CHR 0x20, CHR 0xA0])"

definition trim :: "string \<Rightarrow> string" where
  "trim s = rev (dropWhile is_ws (rev (dropWhile is_ws s)))"

text \<open>\<^verbatim>\<open>s.split(',')\<close>: the pieces between separators; the empty text gives one empty piece.\<close>

fun split :: "char \<Rightarrow> string \<Rightarrow> string list" where
  "split sep [] = [[]]"
| "split sep (c # cs) =
     (if c = sep then [] # split sep cs
      else (case split sep cs of [] \<Rightarrow> [[c]] | p # ps \<Rightarrow> (c # p) # ps))"

text \<open>\<^verbatim>\<open>xs.join(sep)\<close>.\<close>

fun join :: "string \<Rightarrow> string list \<Rightarrow> string" where
  "join sep [] = []"
| "join sep [x] = x"
| "join sep (x # y # ys) = x @ sep @ join sep (y # ys)"

text \<open>\<^verbatim>\<open>e.replace(/^\./, '')\<close>: one leading dot is dropped.\<close>

fun strip_dot :: "string \<Rightarrow> string" where
  "strip_dot (c # cs) = (if c = CHR ''.'' then cs else c # cs)"
| "strip_dot [] = []"

text \<open>Truthiness of an optional string: \<^verbatim>\<open>undefined\<close> and the empty string are falsy.\<close>

fun truthy :: "string option \<Rightarrow> bool" where
  "truthy None = False"
| "truthy (Some s) = (s \<noteq> [])"

text \<open>The decimal text that a template literal gives an integer.\<close>

definition digit :: "nat \<Rightarrow> char" where
  "digit d = char_of (48 + d)"

fun string_of_nat :: "nat \<Rightarrow> string" where
  "string_of_nat n =
     (if n < 10 then [digit n] else string_of_nat (n div 10) @ [digit (n mod 10)])"

declare string_of_nat.simps [simp del]

definition string_of_int :: "int \<Rightarrow> string" where
  "string_of_int i =
     (if i < 0 then CHR ''-'' # string_of_nat (nat (- i)) else string_of_nat (nat i))"

text \<open>A number that may be \<^verbatim>\<open>undefined\<close>, inside a template literal.\<close>

fun string_of_number :: "int option \<Rightarrow> string" where
  "string_of_number None = ''undefined''"
| "string_of_number (Some i) = string_of_int i"

section \<open>Source classification\<close>

definition cjsMarkers :: "string list" where
  "cjsMarkers = [''require('', ''module.exports'', ''__dirname'', ''__filename'', ''exports.'']"

text \<open>\<^verbatim>\<open>cjsMarkers.some(marker => code.includes(marker))\<close>\<close>

definition isCjs :: "string \<Rightarrow> bool" where
  "isCjs code = list_ex (\<lambda>marker. str_includes code marker) cjsMarkers"

section \<open>The world outside the server\<close>

text \<open>
  An \<^verbatim>\<open>async\<close> function either resolves with a value, rejects with an
  exception (kept as its \<^verbatim>\<open>message\<close>), or never settles.
\<close>

datatype 'a completion = Resolved 'a | Rejected string | Pending

text \<open>
  An event of a child process that has a handler: \<^verbatim>\<open>'close'\<close> with the exit code
  (\<^verbatim>\<open>null\<close>, here \<open>None\<close>, when a signal ended the child, as the spawn timeout
  does), or \<^verbatim>\<open>'error'\<close> with the message of the error.  A request sees the list of
  these events in order: one \<^verbatim>\<open>'close'\<close> for a child that ran, \<^verbatim>\<open>'error'\<close> followed
  by \<^verbatim>\<open>'close'\<close> with a negative code for a child that could not be started, none for
  a child that never ends.
\<close>

datatype proc_event = ProcClose "int option" | ProcError string

text \<open>One result of the search collaborator's \<^verbatim>\<open>queryIndex\<close>, with the fields the
  router prints.  The score is kept as the text that a template literal gives it.\<close>

record param =
  p_name :: string
  p_type :: "string option"

record hit_structure =
  parameters :: "param list option"
  returnType :: "string option"
  parentClass :: "string option"
  inheritsFrom :: "string option"
  calls :: "string list option"

record hit =
  h_score :: string
  h_file :: string
  h_startLine :: int
  h_endLine :: int
  h_type :: string
  h_qualifiedName :: string
  h_structure :: "hit_structure option"
  h_doc :: "string option"
  h_lines :: int
  h_code :: "string option"

text \<open>
  Everything one request reads from outside: the configured working directory, the
  library functions \<^verbatim>\<open>path.join\<close> and \<^verbatim>\<open>path.resolve\<close>, the readings of
  \<^verbatim>\<open>Date.now()\<close> (on entry, when the temp file is named, in the handler of the
  child's event), the text of \<^verbatim>\<open>Math.random().toString(36).substring(2)\<close>, what the
  file system answers, whether the promise executor around \<^verbatim>\<open>spawn\<close> throws, what
  the child writes and how it ends, and what the search collaborator answers.
\<close>

record world =
  workingDir :: string
  path_join :: "string \<Rightarrow> string \<Rightarrow> string"
  path_resolve :: "string \<Rightarrow> string"
  now_start :: int
  now_name :: int
  now_end :: int
  random_suffix :: string
  temp_exists :: bool
  mkdir_error :: "string option"
  write_error :: "string option"
  spawn_throw :: "string option"
  child_stdout :: string
  child_stderr :: string
  child_events :: "proc_event list"
  unlink_error :: "string option"
  indexer_load :: "string option"
  sync_outcome :: "unit completion"
  query_outcome :: "hit list completion"

text \<open>What the server does to the outside, in order.\<close>

datatype effect =
    MkdirSync string
  | WriteFileSync string string
  | Spawn string "string list" string int
  | StdinWrite string
  | StdinEnd
  | UnlinkSync string
  | SyncIndex "string list" "string list" "string list"
  | QueryIndex string int

section \<open>The executors\<close>

text \<open>The object an executor resolves with; a field the object lacks is \<open>None\<close>.
  \<open>code = None\<close> also stands for \<^verbatim>\<open>code: null\<close>: the server reads the field only
  through \<^verbatim>\<open>code === 0\<close> and \<^verbatim>\<open>code || 0\<close>.\<close>

record exec_result =
  success :: bool
  stdout :: "string option"
  stderr :: "string option"
  executionTimeMs :: "int option"
  code :: "int option"
  error :: "string option"

text \<open>The \<^verbatim>\<open>'close'\<close> and \<^verbatim>\<open>'error'\<close> handlers, the same in all three spawns.\<close>

definition on_close :: "world \<Rightarrow> int option \<Rightarrow> exec_result" where
  "on_close w c =
     \<lparr>success = (c = Some 0), stdout = Some (child_stdout w), stderr = Some (child_stderr w),
      executionTimeMs = Some (now_end w - now_start w), code = c, error = None\<rparr>"

definition on_error :: "world \<Rightarrow> string \<Rightarrow> exec_result" where
  "on_error w m =
     \<lparr>success = False, stdout = None, stderr = None,
      executionTimeMs = Some (now_end w - now_start w), code = None, error = Some m\<rparr>"

text \<open>The \<^verbatim>\<open>catch\<close> clause of \<^verbatim>\<open>executeCode\<close>:
  \<^verbatim>\<open>return { success: false, error: err.message }\<close>.\<close>

definition caught :: "string \<Rightarrow> exec_result" where
  "caught m =
     \<lparr>success = False, stdout = None, stderr = None,
      executionTimeMs = None, code = None, error = Some m\<rparr>"

text \<open>Every event runs its handler, and the promise keeps the first resolution: the
  result is the one of the first event, and there is none while no event arrives.\<close>

fun settle :: "world \<Rightarrow> proc_event list \<Rightarrow> exec_result completion" where
  "settle w [] = Pending"
| "settle w (ProcClose c # es) = Resolved (on_close w c)"
| "settle w (ProcError m # es) = Resolved (on_error w m)"

definition tempDir :: "world \<Rightarrow> string" where
  "tempDir w = path_join w (workingDir w) ''temp''"

definition tempName :: "int \<Rightarrow> string \<Rightarrow> string" where
  "tempName now rnd = ''node-exec-'' @ string_of_int now @ ''-'' @ rnd @ ''.cjs''"

definition tempFile :: "world \<Rightarrow> string" where
  "tempFile w = path_join w (tempDir w) (tempName (now_name w) (random_suffix w))"

text \<open>\<^verbatim>\<open>fs.unlinkSync(tempFile)\<close> and the \<^verbatim>\<open>try\<close> around it, whose \<^verbatim>\<open>catch\<close> is empty.\<close>

definition unlinkSync :: "world \<Rightarrow> string \<Rightarrow> string + unit" where
  "unlinkSync w f = (case unlink_error w of Some m \<Rightarrow> Inl m | None \<Rightarrow> Inr ())"

definition cleanup :: "world \<Rightarrow> string \<Rightarrow> effect list" where
  "cleanup w f = (case unlinkSync w f of Inl err \<Rightarrow> [UnlinkSync f] | Inr u \<Rightarrow> [UnlinkSync f])"

text \<open>Both handlers of the temp-file strategy clean up before they resolve, so the
  deletion is tried once for each event.\<close>

definition cleanups :: "world \<Rightarrow> string \<Rightarrow> proc_event list \<Rightarrow> effect list" where
  "cleanups w f events = concat (map (\<lambda>e. cleanup w f) events)"

text \<open>
  The branch \<^verbatim>\<open>if (isCjs)\<close>.  \<^verbatim>\<open>mkdirSync\<close> and \<^verbatim>\<open>writeFileSync\<close> run in the
  \<^verbatim>\<open>try\<close> block itself, so what they throw reaches the \<^verbatim>\<open>catch\<close> clause.  The
  spawn runs inside the executor of \<^verbatim>\<open>new Promise\<close>, which is returned without
  \<^verbatim>\<open>await\<close>: what is thrown there rejects the promise and passes the \<^verbatim>\<open>catch\<close>.
\<close>

definition temp_file_strategy :: "world \<Rightarrow> string \<Rightarrow> int \<Rightarrow> effect list \<times> exec_result completion" where
  "temp_file_strategy w src timeout =
     (let mk = (if temp_exists w then [] else [MkdirSync (tempDir w)]);
          mk_err = (if temp_exists w then None else mkdir_error w)
      in case mk_err of
           Some m \<Rightarrow> (mk, Resolved (caught m))
         | None \<Rightarrow>
            (let wr = mk @ [WriteFileSync (tempFile w) src]
             in case write_error w of
                  Some m \<Rightarrow> (wr, Resolved (caught m))
                | None \<Rightarrow>
                   (let sp = wr @ [Spawn ''node'' [tempFile w] (workingDir w) timeout]
                    in case spawn_throw w of
                         Some m \<Rightarrow> (sp, Rejected m)
                       | None \<Rightarrow>
                          (sp @ cleanups w (tempFile w) (child_events w),
                           settle w (child_events w)))))"

text \<open>The stdin pipe, used by the \<^verbatim>\<open>else\<close> branch of \<^verbatim>\<open>executeCode\<close> and by
  \<^verbatim>\<open>executeDenoCode\<close>: spawn, write the text to the child's stdin, end it, then wait.\<close>

definition stdin_pipe :: "world \<Rightarrow> string \<Rightarrow> string list \<Rightarrow> string \<Rightarrow> int \<Rightarrow> effect list \<times> exec_result completion" where
  "stdin_pipe w cmd args src timeout =
     (let sp = [Spawn cmd args (workingDir w) timeout]
      in case spawn_throw w of
           Some m \<Rightarrow> (sp, Rejected m)
         | None \<Rightarrow>
            (sp @ [StdinWrite src, StdinEnd], settle w (child_events w)))"

definition stdin_pipe_strategy :: "world \<Rightarrow> string \<Rightarrow> int \<Rightarrow> effect list \<times> exec_result completion" where
  "stdin_pipe_strategy w src timeout = stdin_pipe w ''node'' [''--input-type=module''] src timeout"

definition executeCode :: "world \<Rightarrow> string \<Rightarrow> int \<Rightarrow> effect list \<times> exec_result completion" where
  "executeCode w src timeout =
     (if isCjs src then temp_file_strategy w src timeout else stdin_pipe_strategy w src timeout)"

text \<open>
  \<^verbatim>\<open>executeDenoCode\<close>.  Its \<^verbatim>\<open>try\<close> block holds only
  \<^verbatim>\<open>return new Promise(...)\<close>, which does not throw, so its \<^verbatim>\<open>catch\<close> clause
  (the one that records the time) is never entered.
\<close>

definition executeDenoCode :: "world \<Rightarrow> string \<Rightarrow> int \<Rightarrow> effect list \<times> exec_result completion" where
  "executeDenoCode w src timeout = stdin_pipe w ''deno'' [''run'', ''--allow-all'', ''-''] src timeout"

section \<open>The search request\<close>

text \<open>What \<^verbatim>\<open>performCodeSearch\<close> returns: the object with \<^verbatim>\<open>success: true\<close>
  (results, elapsed time, and the folders, extensions and ignore patterns used) or the
  one with \<^verbatim>\<open>success: false\<close> (error message, elapsed time).\<close>

datatype search_result =
    SearchOk "hit list" int "string list" "string list" "string list"
  | SearchFailed string int

definition searchFolders :: "world \<Rightarrow> string option \<Rightarrow> string list" where
  "searchFolders w folders =
     (case folders of
        None \<Rightarrow> [workingDir w]
      | Some s \<Rightarrow>
         (if s = [] then [workingDir w]
          else map (\<lambda>f. path_resolve w (trim f)) (split CHR '','' s)))"

definition searchExts :: "string option \<Rightarrow> string list" where
  "searchExts extensions =
     (case extensions of
        None \<Rightarrow> [''js'', ''ts'']
      | Some s \<Rightarrow>
         (if s = [] then [''js'', ''ts'']
          else map (\<lambda>e. strip_dot (trim e)) (split CHR '','' s)))"

definition searchIgnores :: "string option \<Rightarrow> string list" where
  "searchIgnores ignores =
     (case ignores of
        None \<Rightarrow> [''node_modules'']
      | Some s \<Rightarrow>
         (if s = [] then [''node_modules'']
          else map (\<lambda>i. trim i) (split CHR '','' s)))"

text \<open>\<^verbatim>\<open>topK || 8\<close>: \<^verbatim>\<open>undefined\<close> and 0 are falsy.\<close>

fun topK_or_8 :: "int option \<Rightarrow> int" where
  "topK_or_8 None = 8"
| "topK_or_8 (Some k) = (if k = 0 then 8 else k)"

text \<open>
  \<^verbatim>\<open>performCodeSearch\<close>.  Everything after the three defaults awaits the
  collaborator inside the \<^verbatim>\<open>try\<close>, so a rejection becomes the failure object.
\<close>

definition performCodeSearch ::
  "world \<Rightarrow> string \<Rightarrow> string option \<Rightarrow> string option \<Rightarrow> string option \<Rightarrow> int option
     \<Rightarrow> effect list \<times> search_result completion" where
  "performCodeSearch w query folders extensions ignores topK =
     (let sf = searchFolders w folders;
          se = searchExts extensions;
          si = searchIgnores ignores;
          t = now_end w - now_start w
      in case indexer_load w of
           Some m \<Rightarrow> ([], Resolved (SearchFailed m t))
         | None \<Rightarrow>
            (let sy = [SyncIndex sf se si]
             in case sync_outcome w of
                  Rejected m \<Rightarrow> (sy, Resolved (SearchFailed m t))
                | Pending \<Rightarrow> (sy, Pending)
                | Resolved u \<Rightarrow>
                   (let qy = sy @ [QueryIndex query (topK_or_8 topK)]
                    in case query_outcome w of
                         Rejected m \<Rightarrow> (qy, Resolved (SearchFailed m t))
                       | Pending \<Rightarrow> (qy, Pending)
                       | Resolved hits \<Rightarrow> (qy, Resolved (SearchOk hits t sf se si)))))"

section \<open>The request router\<close>

text \<open>The arguments of a tool call, with the types the tools declare; an argument
  that is not given is \<open>None\<close>.\<close>

record tool_args =
  a_code :: "string option"
  a_timeout :: "int option"
  a_query :: "string option"
  a_folders :: "string option"
  a_extensions :: "string option"
  a_ignores :: "string option"
  a_topK :: "int option"

definition no_args :: tool_args where
  "no_args = \<lparr>a_code = None, a_timeout = None, a_query = None, a_folders = None,
              a_extensions = None, a_ignores = None, a_topK = None\<rparr>"

record request =
  tool_name :: string
  arguments :: "tool_args option"

text \<open>One entry \<^verbatim>\<open>{ type: 'text', text }\<close> of the \<^verbatim>\<open>content\<close> array.\<close>

datatype segment = Text string

definition newline :: string where
  "newline = [CHR 0x0A]"

definition dquote :: string where
  "dquote = [CHR 0x22]"

text \<open>\<^verbatim>\<open>result.code || 0\<close>\<close>

fun or_zero :: "int option \<Rightarrow> int" where
  "or_zero None = 0"
| "or_zero (Some c) = (if c = 0 then 0 else c)"

text \<open>The content built from an execution result.  The two execution tools build it
  with the same statements; only the first words of the summary differ.\<close>

definition render_execution :: "string \<Rightarrow> exec_result \<Rightarrow> segment list" where
  "render_execution label result =
     (case stdout result of
        Some s \<Rightarrow> (if s \<noteq> [] then [Text (trim s)] else [])
      | None \<Rightarrow> [])
     @ (case stderr result of
          Some s \<Rightarrow> (if s \<noteq> [] then [Text (''ERROR: '' @ trim s)] else [])
        | None \<Rightarrow> [])
     @ (case error result of
          Some m \<Rightarrow> (if \<not> success result \<and> m \<noteq> [] then [Text (''ERROR: '' @ m)] else [])
        | None \<Rightarrow> [])
     @ [Text (label @ '' completed in '' @ string_of_number (executionTimeMs result)
              @ ''ms with exit code '' @ string_of_int (or_zero (code result)))]"

text \<open>A detail line that is printed when the optional text is truthy.\<close>

fun opt_line :: "string \<Rightarrow> string option \<Rightarrow> string list" where
  "opt_line label None = []"
| "opt_line label (Some s) = (if s = [] then [] else [label @ s])"

text \<open>\<^verbatim>\<open>res.structure?.f\<close>\<close>

definition structure_field :: "(hit_structure \<Rightarrow> 'a option) \<Rightarrow> hit \<Rightarrow> 'a option" where
  "structure_field f res = (case h_structure res of None \<Rightarrow> None | Some st \<Rightarrow> f st)"

definition render_param :: "param \<Rightarrow> string" where
  "render_param p =
     p_name p @ (case p_type p of None \<Rightarrow> [] | Some t \<Rightarrow> (if t = [] then [] else '': '' @ t))"

definition render_hit :: "hit \<Rightarrow> segment" where
  "render_hit res =
     (let title = ''['' @ h_score res @ ''] '' @ h_file res @ '':''
                  @ string_of_int (h_startLine res) @ ''-'' @ string_of_int (h_endLine res)
                  @ '' - '' @ h_type res @ '' '' @ h_qualifiedName res;
          details =
            (case structure_field parameters res of
               None \<Rightarrow> []
             | Some ps \<Rightarrow>
                (if ps = [] then []
                 else [''Parameters: '' @ join '', '' (map render_param ps)]))
            @ opt_line ''Return type: '' (structure_field returnType res)
            @ opt_line ''Parent class: '' (structure_field parentClass res)
            @ opt_line ''Extends: '' (structure_field inheritsFrom res)
            @ opt_line ''Doc: '' (h_doc res)
            @ (case structure_field calls res of
                 None \<Rightarrow> []
               | Some cs \<Rightarrow> (if cs = [] then [] else [''Calls: '' @ join '', '' cs]))
            @ [''Lines: '' @ string_of_int (h_lines res)]
            @ opt_line ''Code snippet: '' (h_code res)
      in Text (title @ newline @ join newline details))"

definition render_search :: "string \<Rightarrow> search_result \<Rightarrow> segment list" where
  "render_search query result =
     (case result of
        SearchOk hits t sf se si \<Rightarrow>
          [Text (''Code search for '' @ dquote @ query @ dquote @ newline
                 @ ''Searched in: '' @ join '', '' sf @ newline
                 @ ''Included extensions: '' @ join '', '' se @ newline
                 @ ''Ignored patterns: '' @ join '', '' si)]
          @ (if hits = [] then [Text ''No results found.'']
             else Text (''Found '' @ string_of_int (int (length hits)) @ '' result(s):'')
                  # map render_hit hits)
          @ [Text (''Search completed in '' @ string_of_int t @ ''ms'')]
      | SearchFailed m t \<Rightarrow> [Text (''ERROR: '' @ m)])"

text \<open>\<^verbatim>\<open>await f(...)\<close> followed by statements that build the value \<open>g r\<close> from the
  awaited \<open>r\<close>: a rejection is rethrown, a promise that never settles blocks.\<close>

definition await_then :: "effect list \<times> 'a completion \<Rightarrow> ('a \<Rightarrow> 'b) \<Rightarrow> effect list \<times> 'b completion" where
  "await_then p g =
     (case p of
        (effs, Resolved r) \<Rightarrow> (effs, Resolved (g r))
      | (effs, Rejected m) \<Rightarrow> (effs, Rejected m)
      | (effs, Pending) \<Rightarrow> (effs, Pending))"

text \<open>\<^verbatim>\<open>const { name, arguments: args = {} } = request.params\<close>: a call without
  arguments has the empty argument object.\<close>

definition effective_args :: "request \<Rightarrow> tool_args" where
  "effective_args req = (case arguments req of None \<Rightarrow> no_args | Some a \<Rightarrow> a)"

text \<open>The \<^verbatim>\<open>try\<close> block of \<^verbatim>\<open>callToolHandler\<close>; \<^verbatim>\<open>throw new Error(m)\<close> is
  \<open>Rejected m\<close>.\<close>

definition handler_body :: "world \<Rightarrow> request \<Rightarrow> effect list \<times> segment list completion" where
  "handler_body w req =
     (let name = tool_name req;
          args = effective_args req;
          timeout = (case a_timeout args of None \<Rightarrow> 120000 | Some t \<Rightarrow> t)
      in if name = ''executenodejs'' \<or> name = ''execute'' \<or> name = ''mcp_mcp_repl_execute'' then
           (case a_code args of
              None \<Rightarrow> ([], Rejected ''Missing code argument for execute tool'')
            | Some src \<Rightarrow>
               (if src = [] then ([], Rejected ''Missing code argument for execute tool'')
                else await_then (executeCode w src timeout) (render_execution ''Execution'')))
         else if name = ''executedeno'' \<or> name = ''mcp_mcp_repl_executedeno'' then
           (case a_code args of
              None \<Rightarrow> ([], Rejected ''Missing code argument for Deno execute tool'')
            | Some src \<Rightarrow>
               (if src = [] then ([], Rejected ''Missing code argument for Deno execute tool'')
                else await_then (executeDenoCode w src timeout)
                       (render_execution ''Deno execution'')))
         else if name = ''searchcode'' \<or> name = ''mcp_mcp_repl_searchcode'' then
           (case a_query args of
              None \<Rightarrow> ([], Rejected ''Missing query argument for code search tool'')
            | Some q \<Rightarrow>
               (if q = [] then ([], Rejected ''Missing query argument for code search tool'')
                else await_then
                       (performCodeSearch w q (a_folders args) (a_extensions args)
                          (a_ignores args) (a_topK args))
                       (render_search q)))
         else ([], Rejected (''Unknown tool: '' @ name)))"

text \<open>\<^verbatim>\<open>callToolHandler\<close>: the \<^verbatim>\<open>catch\<close> clause answers with one segment.\<close>

definition callToolHandler :: "world \<Rightarrow> request \<Rightarrow> effect list \<times> segment list completion" where
  "callToolHandler w req =
     (case handler_body w req of
        (effs, Rejected m) \<Rightarrow> (effs, Resolved [Text (''ERROR: '' @ m)])
      | (effs, Resolved content) \<Rightarrow> (effs, Resolved content)
      | (effs, Pending) \<Rightarrow> (effs, Pending))"

section \<open>Auxiliary definitions and example inputs\<close>

text \<open>Whether an effect is the creation of a child process.\<close>

fun is_spawn :: "effect \<Rightarrow> bool" where
  "is_spawn (Spawn cmd args cwd t) = True"
| "is_spawn e = False"

text \<open>Whether an effect is an attempt to delete a file.\<close>

fun is_unlink :: "effect \<Rightarrow> bool" where
  "is_unlink (UnlinkSync f) = True"
| "is_unlink e = False"

text \<open>The event that settles the promise of a spawned child, if any.\<close>

definition first_event :: "world \<Rightarrow> proc_event option" where
  "first_event w = (case child_events w of [] \<Rightarrow> None | e # es \<Rightarrow> Some e)"

text \<open>
  \<^verbatim>\<open>path.join\<close> of Node on a POSIX system, for two arguments, as its documentation
  describes it: the non-empty arguments are joined by a slash and the result is
  normalised (empty and \<^verbatim>\<open>.\<close> segments dropped, \<^verbatim>\<open>..\<close> resolved, a trailing slash
  kept).  It is used in examples only; the executors take \<^verbatim>\<open>path.join\<close> from the world.
\<close>

fun norm_segments :: "bool \<Rightarrow> string list \<Rightarrow> string list \<Rightarrow> string list" where
  "norm_segments allow_up acc [] = rev acc"
| "norm_segments allow_up acc (s # ss) =
     (if s = [] \<or> s = ''.'' then norm_segments allow_up acc ss
      else if s = ''..'' then
        (case acc of
           [] \<Rightarrow> norm_segments allow_up (if allow_up then [''..''] else []) ss
         | a # rest \<Rightarrow>
            (if a = ''..'' then norm_segments allow_up (''..'' # acc) ss
             else norm_segments allow_up rest ss))
      else norm_segments allow_up (s # acc) ss)"

definition posix_normalize :: "string \<Rightarrow> string" where
  "posix_normalize p =
     (if p = [] then ''.''
      else
        (let absolute = (hd p = CHR ''/'');
             trailing = (last p = CHR ''/'');
             body = join ''/'' (norm_segments (\<not> absolute) [] (split CHR ''/'' p))
         in if body = [] then (if absolute then ''/'' else if trailing then ''./'' else ''.'')
            else (if absolute then ''/'' else []) @ body @ (if trailing then ''/'' else [])))"

definition posix_join :: "string \<Rightarrow> string \<Rightarrow> string" where
  "posix_join a b =
     (let joined = (if a = [] then b else if b = [] then a else a @ ''/'' @ b)
      in if joined = [] then ''.'' else posix_normalize joined)"

text \<open>Reading a decimal text back, to show that the printed number determines the number.\<close>

definition nat_of_digits :: "string \<Rightarrow> nat" where
  "nat_of_digits s = foldl (\<lambda>a c. 10 * a + (of_char c - 48)) 0 s"

text \<open>A request served in \<^verbatim>\<open>/work\<close> on a POSIX system: the scratch directory exists,
  the child prints \<^verbatim>\<open>2\<close> and exits with code 0 after 42 ms, the index is empty.\<close>

definition example_world :: world where
  "example_world =
     \<lparr>workingDir = ''/work'', path_join = (\<lambda>d f. d @ ''/'' @ f),
      path_resolve = (\<lambda>p. ''/work/'' @ p),
      now_start = 1000, now_name = 1001, now_end = 1042, random_suffix = ''k3x9'',
      temp_exists = True, mkdir_error = None, write_error = None, spawn_throw = None,
      child_stdout = ''2'' @ [CHR 0x0A], child_stderr = [], child_events = [ProcClose (Some 0)],
      unlink_error = None, indexer_load = None, sync_outcome = Resolved (),
      query_outcome = Resolved []\<rparr>"

text \<open>The same request when the scratch directory cannot be written to.\<close>

definition readonly_world :: world where
  "readonly_world = example_world\<lparr>write_error := Some ''EACCES: permission denied''\<rparr>"

text \<open>The timestamp and the random text that name a temp file.\<close>

definition temp_key :: "world \<Rightarrow> int \<times> string" where
  "temp_key w = (now_name w, random_suffix w)"

text \<open>The spawn timeout kills the child (\<^verbatim>\<open>'close'\<close> with code \<^verbatim>\<open>null\<close>) and the temp
  file cannot be deleted afterwards.\<close>

definition killed_world :: world where
  "killed_world = example_world\<lparr>child_events := [ProcClose None], unlink_error := Some ''EPERM''\<rparr>"

text \<open>The runtime binary is not installed: the child emits \<^verbatim>\<open>'error'\<close> and then
  \<^verbatim>\<open>'close'\<close> with the negative error number.\<close>

definition missing_binary_world :: world where
  "missing_binary_world = example_world\<lparr>child_events := [ProcError ''spawn deno ENOENT'', ProcClose (Some (- 2))]\<rparr>"

text \<open>\<^verbatim>\<open>spawn\<close> refuses its options and throws inside the promise executor.\<close>

definition spawn_throws_world :: world where
  "spawn_throws_world = example_world\<lparr>spawn_throw := Some ''The value of timeout is out of range''\<rparr>"

text \<open>The script prints on both streams and exits with code 1.\<close>

definition failing_script_world :: world where
  "failing_script_world =
     example_world\<lparr>child_stdout := '' partial '', child_stderr := ''boom'' @ [CHR 0x0A],
                    child_events := [ProcClose (Some 1)]\<rparr>"

text \<open>Two requests of a server whose \<^verbatim>\<open>path.join\<close> normalises; they read the same
  clock value and draw different random texts.\<close>

definition posix_world :: world where
  "posix_world = example_world\<lparr>path_join := posix_join\<rparr>"

definition posix_world_b :: world where
  "posix_world_b = example_world\<lparr>path_join := posix_join, random_suffix := ''zz81''\<rparr>"

text \<open>A second request that starts one millisecond later and, when its temp file is
  named, reads the same clock value and draws the same random text as the first.\<close>

definition second_request_world :: world where
  "second_request_world = example_world\<lparr>now_start := 1001, now_end := 1090\<rparr>"

section \<open>Facts about the examples and the string functions\<close>

lemma example_world_sel [simp]:
  "workingDir example_world = ''/work''"
  "path_join example_world d f = d @ ''/'' @ f"
  "path_resolve example_world p = ''/work/'' @ p"
  "now_start example_world = 1000"
  "now_name example_world = 1001"
  "now_end example_world = 1042"
  "random_suffix example_world = ''k3x9''"
  "temp_exists example_world"
  "mkdir_error example_world = None"
  "write_error example_world = None"
  "spawn_throw example_world = None"
  "child_stdout example_world = ''2'' @ [CHR 0x0A]"
  "child_stderr example_world = []"
  "child_events example_world = [ProcClose (Some 0)]"
  "unlink_error example_world = None"
  "indexer_load example_world = None"
  "sync_outcome example_world = Resolved ()"
  "query_outcome example_world = Resolved []"
  by (simp_all add: example_world_def)

lemma string_of_int_1001: "string_of_int 1001 = ''1001''"
  by code_simp

lemma string_of_int_42: "string_of_int 42 = ''42''"
  by code_simp

lemma string_of_int_0: "string_of_int 0 = ''0''"
  by code_simp

lemma cjs_example: "isCjs ''module.exports = 1;''"
  by (simp add: isCjs_def cjsMarkers_def)

lemma cjs_comment_example: "isCjs ''// __dirname''"
  by (simp add: isCjs_def cjsMarkers_def)

lemma esm_example: "\<not> isCjs ''console.log(1+1)''"
  by (simp add: isCjs_def cjsMarkers_def)

lemma str_includes_iff: "str_includes s m \<longleftrightarrow> (\<exists>p t. s = p @ m @ t)"
proof (induction s)
  case Nil
  show ?case by simp
next
  case (Cons c cs)
  show ?case
  proof
    assume "str_includes (c # cs) m"
    then consider "prefix m (c # cs)" | "str_includes cs m" by auto
    then show "\<exists>p t. c # cs = p @ m @ t"
    proof cases
      case 1
      then obtain t where "c # cs = m @ t" by (auto simp: prefix_def)
      then have "c # cs = [] @ m @ t" by simp
      then show ?thesis by blast
    next
      case 2
      with Cons.IH obtain p t where "cs = p @ m @ t" by blast
      then have "c # cs = (c # p) @ m @ t" by simp
      then show ?thesis by blast
    qed
  next
    assume "\<exists>p t. c # cs = p @ m @ t"
    then obtain p t where e: "c # cs = p @ m @ t" by blast
    show "str_includes (c # cs) m"
    proof (cases p)
      case Nil
      with e have "prefix m (c # cs)" by (simp add: prefix_def)
      then show ?thesis by simp
    next
      case (Cons a p')
      with e have "cs = p' @ m @ t" by simp
      with Cons.IH have "str_includes cs m" by blast
      then show ?thesis by simp
    qed
  qed
qed

lemma isCjs_iff:
  "isCjs src \<longleftrightarrow>
     (\<exists>m \<in> {''require('', ''module.exports'', ''__dirname'', ''__filename'', ''exports.''}.
        \<exists>p t. src = p @ m @ t)"
  unfolding isCjs_def cjsMarkers_def list_ex_iff str_includes_iff by simp

lemma string_of_int_1: "string_of_int 1 = ''1''"
  by code_simp

lemma second_request_world_sel [simp]:
  "workingDir second_request_world = ''/work''"
  "path_join second_request_world = path_join example_world"
  "now_start second_request_world = 1001"
  "now_name second_request_world = 1001"
  "random_suffix second_request_world = ''k3x9''"
  by (simp_all add: second_request_world_def)

subsection \<open>The printed number determines the number\<close>

lemma of_char_digit: "d < 10 \<Longrightarrow> of_char (digit d) = 48 + d"
  by (simp add: digit_def)

lemma digit_not_minus: "d < 10 \<Longrightarrow> digit d \<noteq> CHR ''-''"
proof
  assume d: "d < 10" and "digit d = CHR ''-''"
  then have "(of_char (digit d) :: nat) = of_char CHR ''-''" by simp
  with d show False by (simp add: of_char_digit)
qed

lemma nat_of_digits_string_of_nat: "nat_of_digits (string_of_nat n) = n"
proof (induction n rule: string_of_nat.induct)
  case (1 n)
  show ?case
  proof (cases "n < 10")
    case True
    then show ?thesis
      by (simp add: string_of_nat.simps [of n] nat_of_digits_def of_char_digit)
  next
    case False
    with 1 have "nat_of_digits (string_of_nat (n div 10)) = n div 10" by simp
    with False show ?thesis
      by (simp add: string_of_nat.simps [of n] nat_of_digits_def of_char_digit)
  qed
qed

lemma string_of_nat_inj: "string_of_nat a = string_of_nat b \<Longrightarrow> a = b"
  by (metis nat_of_digits_string_of_nat)

lemma string_of_nat_digits: "CHR ''-'' \<notin> set (string_of_nat n)"
proof (induction n rule: string_of_nat.induct)
  case (1 n)
  show ?case
  proof (cases "n < 10")
    case True
    then show ?thesis
      using digit_not_minus [of n] by (simp add: string_of_nat.simps [of n])
  next
    case False
    with 1 have "CHR ''-'' \<notin> set (string_of_nat (n div 10))" by simp
    moreover have "digit (n mod 10) \<noteq> CHR ''-''" by (rule digit_not_minus) simp
    ultimately show ?thesis using False
      by (simp add: string_of_nat.simps [of n])
  qed
qed

lemma string_of_nat_nonempty: "string_of_nat n \<noteq> []"
  by (simp add: string_of_nat.simps [of n])

lemma string_of_int_nonempty: "string_of_int i \<noteq> []"
  by (simp add: string_of_int_def string_of_nat_nonempty)

lemma string_of_int_tail: "CHR ''-'' \<notin> set (tl (string_of_int i))"
  using string_of_nat_digits [of "nat i"] string_of_nat_digits [of "nat (- i)"]
    string_of_nat_nonempty [of "nat i"]
  by (auto simp: string_of_int_def dest: list.set_sel(2))

lemma string_of_int_inj: "string_of_int a = string_of_int b \<Longrightarrow> a = b"
proof -
  assume e: "string_of_int a = string_of_int b"
  have hd_nat: "hd (string_of_nat n) \<noteq> CHR ''-''" for n
    using string_of_nat_digits [of n] string_of_nat_nonempty [of n]
    by (metis list.set_sel(1))
  show "a = b"
  proof (cases "a < 0")
    case True
    show ?thesis
    proof (cases "b < 0")
      case True
      with \<open>a < 0\<close> e have "string_of_nat (nat (- a)) = string_of_nat (nat (- b))"
        by (simp add: string_of_int_def)
      then have "nat (- a) = nat (- b)" by (rule string_of_nat_inj)
      with True \<open>a < 0\<close> show ?thesis by simp
    next
      case False
      with \<open>a < 0\<close> e have "CHR ''-'' # string_of_nat (nat (- a)) = string_of_nat (nat b)"
        by (simp add: string_of_int_def)
      then have "hd (string_of_nat (nat b)) = CHR ''-''" by (metis list.sel(1))
      with hd_nat show ?thesis by blast
    qed
  next
    case False
    show ?thesis
    proof (cases "b < 0")
      case True
      with False e have "string_of_nat (nat a) = CHR ''-'' # string_of_nat (nat (- b))"
        by (simp add: string_of_int_def)
      then have "hd (string_of_nat (nat a)) = CHR ''-''" by (metis list.sel(1))
      with hd_nat show ?thesis by blast
    next
      case nonneg: False
      with False e have "string_of_nat (nat a) = string_of_nat (nat b)"
        by (simp add: string_of_int_def)
      then have "nat a = nat b" by (rule string_of_nat_inj)
      with nonneg False show ?thesis by simp
    qed
  qed
qed

text \<open>The separator after the number is the first minus sign past the first character.\<close>

lemma number_dash_inj:
  assumes "string_of_int a @ CHR ''-'' # x = string_of_int b @ CHR ''-'' # y"
  shows "a = b \<and> x = y"
proof -
  have key: "u = [] " if "string_of_int i = string_of_int j @ u" and "u @ r = CHR ''-'' # q" for i j u r q
  proof (rule ccontr)
    assume "u \<noteq> []"
    with that(2) have "hd u = CHR ''-''" by (cases u) auto
    with \<open>u \<noteq> []\<close> have "CHR ''-'' \<in> set u" by (metis list.set_sel(1))
    moreover from that(1) string_of_int_nonempty [of j]
    have "set u \<subseteq> set (tl (string_of_int i))" by (cases "string_of_int j") auto
    ultimately show False using string_of_int_tail [of i] by blast
  qed
  from assms obtain u where
    "(string_of_int a = string_of_int b @ u \<and> u @ CHR ''-'' # x = CHR ''-'' # y)
     \<or> (string_of_int a @ u = string_of_int b \<and> CHR ''-'' # x = u @ CHR ''-'' # y)"
    by (auto simp: append_eq_append_conv2)
  then show ?thesis
  proof
    assume h: "string_of_int a = string_of_int b @ u \<and> u @ CHR ''-'' # x = CHR ''-'' # y"
    then have "u = []" using key by blast
    with h show ?thesis using string_of_int_inj by auto
  next
    assume h: "string_of_int a @ u = string_of_int b \<and> CHR ''-'' # x = u @ CHR ''-'' # y"
    then have "u = []" using key [of b a u "CHR ''-'' # y" x] by simp
    with h show ?thesis using string_of_int_inj by auto
  qed
qed

lemma tempName_inj:
  "tempName a x = tempName b y \<longleftrightarrow> a = b \<and> x = y"
proof
  assume "tempName a x = tempName b y"
  then have "string_of_int a @ CHR ''-'' # (x @ ''.cjs'') = string_of_int b @ CHR ''-'' # (y @ ''.cjs'')"
    by (simp add: tempName_def)
  then have "a = b \<and> x @ ''.cjs'' = y @ ''.cjs''" by (rule number_dash_inj)
  then show "a = b \<and> x = y" by simp
qed simp

lemma tempFile_inj_on:
  assumes same: "\<forall>w \<in> A. workingDir w = wd \<and> path_join w = pj"
    and inj: "inj_on (pj (pj wd ''temp'')) ((\<lambda>w. tempName (now_name w) (random_suffix w)) ` A)"
  shows "inj_on tempFile A \<longleftrightarrow> inj_on temp_key A"
proof -
  have eq: "tempFile a = tempFile b \<longleftrightarrow> temp_key a = temp_key b" if "a \<in> A" "b \<in> A" for a b
  proof -
    from that same have "tempFile a = pj (pj wd ''temp'') (tempName (now_name a) (random_suffix a))"
      and "tempFile b = pj (pj wd ''temp'') (tempName (now_name b) (random_suffix b))"
      by (simp_all add: tempFile_def tempDir_def)
    moreover from that
    have "tempName (now_name a) (random_suffix a)
            \<in> (\<lambda>w. tempName (now_name w) (random_suffix w)) ` A"
      and "tempName (now_name b) (random_suffix b)
            \<in> (\<lambda>w. tempName (now_name w) (random_suffix w)) ` A"
      by blast+
    ultimately have "tempFile a = tempFile b \<longleftrightarrow>
        tempName (now_name a) (random_suffix a) = tempName (now_name b) (random_suffix b)"
      using inj_on_eq_iff [OF inj] by simp
    then show ?thesis by (simp add: tempName_inj temp_key_def)
  qed
  show ?thesis unfolding inj_on_def using eq by blast
qed

lemma posix_join_temp: "posix_join ''/work'' ''temp'' = ''/work/temp''"
  by code_simp

lemma posix_join_k3x9:
  "posix_join ''/work/temp'' ''node-exec-1001-k3x9.cjs'' = ''/work/temp/node-exec-1001-k3x9.cjs''"
  by code_simp

lemma posix_join_zz81:
  "posix_join ''/work/temp'' ''node-exec-1001-zz81.cjs'' = ''/work/temp/node-exec-1001-zz81.cjs''"
  by code_simp

lemma posix_join_not_injective:
  "posix_join ''/work/temp'' ''a'' = posix_join ''/work/temp'' ''./a''"
  by code_simp

subsection \<open>What the executors resolve with\<close>

lemma settle_resolved:
  assumes "settle w (child_events w) = Resolved r"
  shows "(\<exists>c. first_event w = Some (ProcClose c) \<and> r = on_close w c)
       \<or> (\<exists>m. first_event w = Some (ProcError m) \<and> r = on_error w m)"
proof (cases "child_events w")
  case Nil
  with assms show ?thesis by simp
next
  case (Cons e es)
  with assms show ?thesis by (cases e) (simp_all add: first_event_def)
qed

lemma is_spawn_cleanups [simp]: "\<not> list_ex is_spawn (cleanups w f es)"
  by (induction es) (simp_all add: cleanups_def cleanup_def split: sum.splits)

lemma stdin_pipe_resolved:
  assumes "stdin_pipe w cmd args src t = (effs, Resolved r)"
  shows "list_ex is_spawn effs
       \<and> ((\<exists>c. first_event w = Some (ProcClose c) \<and> r = on_close w c)
          \<or> (\<exists>m. first_event w = Some (ProcError m) \<and> r = on_error w m))"
proof -
  from assms have "spawn_throw w = None"
    by (auto simp: stdin_pipe_def Let_def split: option.splits)
  with assms have "effs = [Spawn cmd args (workingDir w) t, StdinWrite src, StdinEnd]"
    and "settle w (child_events w) = Resolved r"
    by (auto simp: stdin_pipe_def Let_def)
  then show ?thesis using settle_resolved by simp
qed

lemma temp_file_resolved:
  assumes "temp_file_strategy w src t = (effs, Resolved r)"
  shows "(list_ex is_spawn effs
          \<and> ((\<exists>c. first_event w = Some (ProcClose c) \<and> r = on_close w c)
             \<or> (\<exists>m. first_event w = Some (ProcError m) \<and> r = on_error w m)))
       \<or> (\<not> list_ex is_spawn effs
          \<and> (\<exists>m. r = caught m
                \<and> (\<not> temp_exists w \<and> mkdir_error w = Some m \<or> write_error w = Some m)))"
  using assms settle_resolved [of w r]
  by (auto simp: temp_file_strategy_def Let_def split: option.splits if_splits)

lemma executor_resolved:
  assumes "executeCode w src t = (effs, Resolved r) \<or> executeDenoCode w src t = (effs, Resolved r)"
  shows "(list_ex is_spawn effs
          \<and> ((\<exists>c. first_event w = Some (ProcClose c) \<and> r = on_close w c)
             \<or> (\<exists>m. first_event w = Some (ProcError m) \<and> r = on_error w m)))
       \<or> (\<not> list_ex is_spawn effs
          \<and> (\<exists>m. r = caught m
                \<and> (\<not> temp_exists w \<and> mkdir_error w = Some m \<or> write_error w = Some m)))"
proof -
  from assms consider "temp_file_strategy w src t = (effs, Resolved r)"
    | cmd args where "stdin_pipe w cmd args src t = (effs, Resolved r)"
    by (auto simp: executeCode_def executeDenoCode_def stdin_pipe_strategy_def split: if_splits)
  then show ?thesis
  proof cases
    case 1
    then show ?thesis by (rule temp_file_resolved)
  next
    case 2
    then show ?thesis using stdin_pipe_resolved by blast
  qed
qed

lemma first_event_example [simp]: "first_event example_world = Some (ProcClose (Some 0))"
  by (simp add: first_event_def)

lemma first_event_missing_binary [simp]:
  "first_event missing_binary_world = Some (ProcError ''spawn deno ENOENT'')"
  by (simp add: first_event_def missing_binary_world_def)

lemma write_error_readonly [simp]:
  "write_error readonly_world = Some ''EACCES: permission denied''"
  by (simp add: readonly_world_def)

lemma tempFile_example: "tempFile example_world = ''/work/temp/node-exec-1001-k3x9.cjs''"
  by (simp add: tempFile_def tempDir_def tempName_def string_of_int_1001)

lemma run_cjs_example:
  "executeCode example_world ''module.exports = 1;'' 120000 =
     ([WriteFileSync ''/work/temp/node-exec-1001-k3x9.cjs'' ''module.exports = 1;'',
       Spawn ''node'' [''/work/temp/node-exec-1001-k3x9.cjs''] ''/work'' 120000,
       UnlinkSync ''/work/temp/node-exec-1001-k3x9.cjs''],
      Resolved \<lparr>success = True, stdout = Some (''2'' @ [CHR 0x0A]), stderr = Some [],
                executionTimeMs = Some 42, code = Some 0, error = None\<rparr>)"
  by (simp add: executeCode_def cjs_example temp_file_strategy_def tempFile_example
      cleanups_def cleanup_def unlinkSync_def on_close_def)

lemma run_readonly:
  "executeCode readonly_world ''module.exports = 1;'' 120000 =
     ([WriteFileSync ''/work/temp/node-exec-1001-k3x9.cjs'' ''module.exports = 1;''],
      Resolved \<lparr>success = False, stdout = None, stderr = None,
                executionTimeMs = None, code = None, error = Some ''EACCES: permission denied''\<rparr>)"
  by (simp add: executeCode_def cjs_example temp_file_strategy_def readonly_world_def
       tempFile_def tempDir_def tempName_def string_of_int_1001 caught_def)

lemma executor_error_not_success:
  assumes "executeCode w src t = (effs, Resolved r) \<or> executeDenoCode w src t = (effs, Resolved r)"
  shows "error r \<noteq> None \<longrightarrow> \<not> success r"
  using executor_resolved [OF assms]
  by (auto simp: on_close_def on_error_def caught_def)

lemma run_failing_script:
  "executeCode failing_script_world ''console.log(1+1)'' 120000 =
     ([Spawn ''node'' [''--input-type=module''] ''/work'' 120000,
       StdinWrite ''console.log(1+1)'', StdinEnd],
      Resolved \<lparr>success = False, stdout = Some '' partial '', stderr = Some (''boom'' @ [CHR 0x0A]),
                executionTimeMs = Some 42, code = Some 1, error = None\<rparr>)"
  by (simp add: executeCode_def esm_example stdin_pipe_strategy_def stdin_pipe_def
      failing_script_world_def on_close_def)

lemma run_missing_binary:
  "executeDenoCode missing_binary_world ''console.log(1+1)'' 120000 =
     ([Spawn ''deno'' [''run'', ''--allow-all'', ''-''] ''/work'' 120000,
       StdinWrite ''console.log(1+1)'', StdinEnd],
      Resolved \<lparr>success = False, stdout = None, stderr = None,
                executionTimeMs = Some 42, code = None, error = Some ''spawn deno ENOENT''\<rparr>)"
  by (simp add: executeDenoCode_def stdin_pipe_def missing_binary_world_def on_error_def)

lemma tempFile_unlink [simp]: "tempFile (w\<lparr>unlink_error := u\<rparr>) = tempFile w"
  by (simp add: tempFile_def tempDir_def)

lemma cleanup_unlink [simp]: "cleanup (w\<lparr>unlink_error := u\<rparr>) f = cleanup w f"
  by (simp add: cleanup_def split: sum.splits)

lemma on_close_unlink [simp]: "on_close (w\<lparr>unlink_error := u\<rparr>) c = on_close w c"
  by (simp add: on_close_def)

lemma on_error_unlink [simp]: "on_error (w\<lparr>unlink_error := u\<rparr>) m = on_error w m"
  by (simp add: on_error_def)

lemma cleanups_unlink [simp]: "cleanups (w\<lparr>unlink_error := u\<rparr>) f es = cleanups w f es"
  by (simp add: cleanups_def)

lemma settle_unlink [simp]: "settle (w\<lparr>unlink_error := u\<rparr>) es = settle w es"
proof (cases es)
  case Nil
  then show ?thesis by simp
next
  case (Cons e es')
  then show ?thesis by (cases e) simp_all
qed

lemma temp_file_strategy_unlink:
  "temp_file_strategy (w\<lparr>unlink_error := u\<rparr>) src t = temp_file_strategy w src t"
  by (simp add: temp_file_strategy_def tempDir_def Let_def split: option.splits)

text \<open>Once the child has been spawned, every event of it ends with an attempt to delete
  the temp file, and the outcome of the attempt changes nothing.\<close>

lemma temp_file_strategy_cleans:
  assumes "temp_exists w \<or> mkdir_error w = None" and "write_error w = None"
    and "spawn_throw w = None" and "child_events w \<noteq> []"
  shows "last (fst (temp_file_strategy w src t)) = UnlinkSync (tempFile w)"
proof -
  from assms(4) obtain es e where "child_events w = es @ [e]"
    by (metis rev_exhaust)
  then have "cleanups w (tempFile w) (child_events w)
      = cleanups w (tempFile w) es @ [UnlinkSync (tempFile w)]"
    by (simp add: cleanups_def cleanup_def split: sum.splits)
  with assms(1-3) show ?thesis
    by (auto simp: temp_file_strategy_def Let_def)
qed

lemma run_killed:
  "executeCode killed_world ''module.exports = 1;'' 120000 =
     ([WriteFileSync ''/work/temp/node-exec-1001-k3x9.cjs'' ''module.exports = 1;'',
       Spawn ''node'' [''/work/temp/node-exec-1001-k3x9.cjs''] ''/work'' 120000,
       UnlinkSync ''/work/temp/node-exec-1001-k3x9.cjs''],
      Resolved \<lparr>success = False, stdout = Some (''2'' @ [CHR 0x0A]), stderr = Some [],
                executionTimeMs = Some 42, code = None, error = None\<rparr>)"
  by (simp add: executeCode_def cjs_example temp_file_strategy_def killed_world_def
       tempFile_def tempDir_def tempName_def string_of_int_1001
       cleanups_def cleanup_def unlinkSync_def on_close_def)

text \<open>A child that cannot be started runs both handlers, so the deletion is tried twice;
  the result is the one of the \<^verbatim>\<open>'error'\<close> handler.\<close>

lemma run_cjs_missing_binary:
  "executeCode missing_binary_world ''module.exports = 1;'' 120000 =
     ([WriteFileSync ''/work/temp/node-exec-1001-k3x9.cjs'' ''module.exports = 1;'',
       Spawn ''node'' [''/work/temp/node-exec-1001-k3x9.cjs''] ''/work'' 120000,
       UnlinkSync ''/work/temp/node-exec-1001-k3x9.cjs'',
       UnlinkSync ''/work/temp/node-exec-1001-k3x9.cjs''],
      Resolved \<lparr>success = False, stdout = None, stderr = None,
                executionTimeMs = Some 42, code = None, error = Some ''spawn deno ENOENT''\<rparr>)"
  by (simp add: executeCode_def cjs_example temp_file_strategy_def missing_binary_world_def
       tempFile_def tempDir_def tempName_def string_of_int_1001
       cleanups_def cleanup_def unlinkSync_def on_error_def)

lemma run_spawn_throws:
  "executeCode spawn_throws_world ''module.exports = 1;'' (- 1) =
     ([WriteFileSync ''/work/temp/node-exec-1001-k3x9.cjs'' ''module.exports = 1;'',
       Spawn ''node'' [''/work/temp/node-exec-1001-k3x9.cjs''] ''/work'' (- 1)],
      Rejected ''The value of timeout is out of range'')"
  by (simp add: executeCode_def cjs_example temp_file_strategy_def spawn_throws_world_def
       tempFile_def tempDir_def tempName_def string_of_int_1001)

subsection \<open>The router\<close>

lemma callToolHandler_not_rejected: "snd (callToolHandler w req) \<noteq> Rejected m"
  by (cases "handler_body w req"; cases "snd (handler_body w req)")
     (auto simp: callToolHandler_def)

lemma callToolHandler_catch:
  "snd (handler_body w req) = Rejected m \<Longrightarrow>
   callToolHandler w req = (fst (handler_body w req), Resolved [Text (''ERROR: '' @ m)])"
  by (cases "handler_body w req") (auto simp: callToolHandler_def)

lemma handler_unknown:
  assumes "tool_name req \<notin> {''executenodejs'', ''execute'', ''mcp_mcp_repl_execute'',
             ''executedeno'', ''mcp_mcp_repl_executedeno'', ''searchcode'', ''mcp_mcp_repl_searchcode''}"
  shows "handler_body w req = ([], Rejected (''Unknown tool: '' @ tool_name req))"
  using assms by (simp add: handler_body_def Let_def)

lemma handler_missing_node:
  assumes "tool_name req \<in> {''executenodejs'', ''execute'', ''mcp_mcp_repl_execute''}"
    and "a_code (effective_args req) = None \<or> a_code (effective_args req) = Some []"
  shows "handler_body w req = ([], Rejected ''Missing code argument for execute tool'')"
  using assms by (auto simp: handler_body_def Let_def effective_args_def)

lemma handler_missing_deno:
  assumes "tool_name req \<in> {''executedeno'', ''mcp_mcp_repl_executedeno''}"
    and "a_code (effective_args req) = None \<or> a_code (effective_args req) = Some []"
  shows "handler_body w req = ([], Rejected ''Missing code argument for Deno execute tool'')"
  using assms by (auto simp: handler_body_def Let_def effective_args_def)

lemma handler_missing_search:
  assumes "tool_name req \<in> {''searchcode'', ''mcp_mcp_repl_searchcode''}"
    and "a_query (effective_args req) = None \<or> a_query (effective_args req) = Some []"
  shows "handler_body w req = ([], Rejected ''Missing query argument for code search tool'')"
  using assms by (auto simp: handler_body_def Let_def effective_args_def)

lemma callToolHandler_of_rejected:
  "handler_body w req = (effs, Rejected m) \<Longrightarrow>
   callToolHandler w req = (effs, Resolved [Text (''ERROR: '' @ m)])"
  by (simp add: callToolHandler_def)

lemma render_execution_parts:
  assumes "error r \<noteq> None \<longrightarrow> \<not> success r"
  shows "render_execution label r =
      (if truthy (stdout r) then [Text (trim (the (stdout r)))] else [])
    @ (if truthy (stderr r) then [Text (''ERROR: '' @ trim (the (stderr r)))] else [])
    @ (if truthy (error r) then [Text (''ERROR: '' @ the (error r))] else [])
    @ [Text (label @ '' completed in '' @ string_of_number (executionTimeMs r)
             @ ''ms with exit code ''
             @ string_of_int (case code r of None \<Rightarrow> 0 | Some c \<Rightarrow> c))]"
proof -
  have "or_zero (code r) = (case code r of None \<Rightarrow> 0 | Some c \<Rightarrow> c)"
    by (cases "code r") simp_all
  with assms show ?thesis
    by (cases "stdout r"; cases "stderr r"; cases "error r")
       (simp_all add: render_execution_def)
qed

lemma fst_await_then [simp]: "fst (await_then p g) = fst p"
  by (cases p; cases "snd p") (auto simp: await_then_def)

lemma fst_callToolHandler: "fst (callToolHandler w req) = fst (handler_body w req)"
  by (cases "handler_body w req"; cases "snd (handler_body w req)")
     (auto simp: callToolHandler_def)

lemma performCodeSearch_calls:
  assumes "indexer_load w = None" and "sync_outcome w = Resolved u"
  shows "fst (performCodeSearch w query folders extensions ignores topK) =
     [SyncIndex (searchFolders w folders) (searchExts extensions) (searchIgnores ignores),
      QueryIndex query (topK_or_8 topK)]"
  using assms
  by (simp add: performCodeSearch_def Let_def split: completion.splits)

section \<open>The claims\<close>

text \<open>
  C1.  The classifier selects the commonjs (temp-file) strategy exactly when the source
  text contains one of \<^verbatim>\<open>require(\<close>, \<^verbatim>\<open>module.exports\<close>, \<^verbatim>\<open>__dirname\<close>,
  \<^verbatim>\<open>__filename\<close>, \<^verbatim>\<open>exports.\<close> as a substring at any position, and the module
  (stdin-pipe) strategy otherwise; nothing but the occurrence of the marker is looked at.
\<close>

theorem classifier_selects_strategy:
  "executeCode w src timeout =
     (if \<exists>m \<in> {''require('', ''module.exports'', ''__dirname'', ''__filename'', ''exports.''}.
           \<exists>p t. src = p @ m @ t
      then temp_file_strategy w src timeout
      else stdin_pipe_strategy w src timeout)"
  unfolding executeCode_def isCjs_iff ..

theorem classifier_selects_strategy_witness:
  "executeCode example_world ''// __dirname'' 120000
     = temp_file_strategy example_world ''// __dirname'' 120000
   \<and> executeCode example_world ''console.log(1+1)'' 120000
     = stdin_pipe_strategy example_world ''console.log(1+1)'' 120000"
  using classifier_selects_strategy [of example_world "''// __dirname''" 120000]
    classifier_selects_strategy [of example_world "''console.log(1+1)''" 120000]
    cjs_comment_example esm_example
  unfolding isCjs_iff by simp

text \<open>
  C2, as amended.  In every result that an executor resolves with (primary runtime with
  either strategy, or alternate runtime): an exit code that is present is the code of
  the child's \<^verbatim>\<open>'close'\<close> event, and \<open>success\<close> is true exactly when that code is 0;
  a child that closes first gives its code and no error message.  An error message is
  there only when no exit was reported: either the spawned child emitted \<^verbatim>\<open>'error'\<close>
  with that message (a spawn-level failure), or, in the temp-file strategy, creating the
  scratch directory or writing the temp file threw that message before any process was
  spawned.  In both cases \<open>success\<close> is false and there is no exit code.
\<close>

theorem result_reports_child_outcome:
  assumes "executeCode w src t = (effs, Resolved r) \<or> executeDenoCode w src t = (effs, Resolved r)"
  shows "(\<forall>n. code r = Some n \<longrightarrow>
            list_ex is_spawn effs \<and> first_event w = Some (ProcClose (Some n))
            \<and> (success r \<longleftrightarrow> n = 0))
       \<and> (success r \<longrightarrow> code r = Some 0)
       \<and> (\<forall>c. list_ex is_spawn effs \<and> first_event w = Some (ProcClose c) \<longrightarrow>
            code r = c \<and> (success r \<longleftrightarrow> c = Some 0) \<and> error r = None)
       \<and> (\<forall>m. error r = Some m \<longrightarrow>
            \<not> success r \<and> code r = None
            \<and> (list_ex is_spawn effs \<and> first_event w = Some (ProcError m)
               \<or> \<not> list_ex is_spawn effs
                 \<and> (\<not> temp_exists w \<and> mkdir_error w = Some m \<or> write_error w = Some m)))"
  using executor_resolved [OF assms]
  by (auto simp: on_close_def on_error_def caught_def)

theorem result_reports_child_outcome_witness:
  "executeCode example_world ''module.exports = 1;'' 120000 =
     ([WriteFileSync ''/work/temp/node-exec-1001-k3x9.cjs'' ''module.exports = 1;'',
       Spawn ''node'' [''/work/temp/node-exec-1001-k3x9.cjs''] ''/work'' 120000,
       UnlinkSync ''/work/temp/node-exec-1001-k3x9.cjs''],
      Resolved \<lparr>success = True, stdout = Some (''2'' @ [CHR 0x0A]), stderr = Some [],
                executionTimeMs = Some 42, code = Some 0, error = None\<rparr>)
   \<and> first_event example_world = Some (ProcClose (Some 0))
   \<and> executeCode readonly_world ''module.exports = 1;'' 120000 =
     ([WriteFileSync ''/work/temp/node-exec-1001-k3x9.cjs'' ''module.exports = 1;''],
      Resolved \<lparr>success = False, stdout = None, stderr = None,
                executionTimeMs = None, code = None, error = Some ''EACCES: permission denied''\<rparr>)
   \<and> write_error readonly_world = Some ''EACCES: permission denied''
   \<and> executeDenoCode missing_binary_world ''console.log(1+1)'' 120000 =
     ([Spawn ''deno'' [''run'', ''--allow-all'', ''-''] ''/work'' 120000,
       StdinWrite ''console.log(1+1)'', StdinEnd],
      Resolved \<lparr>success = False, stdout = None, stderr = None,
                executionTimeMs = Some 42, code = None, error = Some ''spawn deno ENOENT''\<rparr>)
   \<and> first_event missing_binary_world = Some (ProcError ''spawn deno ENOENT'')"
  using result_reports_child_outcome [OF disjI1, OF run_cjs_example]
    result_reports_child_outcome [OF disjI1, OF run_readonly]
    result_reports_child_outcome [OF disjI2, OF run_missing_binary]
    run_cjs_example run_readonly run_missing_binary
  by simp

text \<open>
  C2 as stated fails: when the temp file cannot be written, the result carries an error
  message although no process was spawned, so nothing failed at the level of the spawn.
\<close>

theorem error_message_without_spawn_failure:
  "executeCode readonly_world ''module.exports = 1;'' 120000 =
     ([WriteFileSync ''/work/temp/node-exec-1001-k3x9.cjs'' ''module.exports = 1;''],
      Resolved \<lparr>success = False, stdout = None, stderr = None,
                executionTimeMs = None, code = None, error = Some ''EACCES: permission denied''\<rparr>)
   \<and> error \<lparr>success = False, stdout = None, stderr = None,
              executionTimeMs = None, code = None, error = Some ''EACCES: permission denied''\<rparr>
       = Some ''EACCES: permission denied''
   \<and> \<not> list_ex is_spawn
         [WriteFileSync ''/work/temp/node-exec-1001-k3x9.cjs'' ''module.exports = 1;'']"
  by (simp add: run_readonly)

text \<open>
  C3.  The claim asks for \<open>executionTimeMs\<close> on every outcome path.  The
  \<^verbatim>\<open>catch\<close> clause of \<^verbatim>\<open>executeCode\<close> returns an object without it (the one of
  \<^verbatim>\<open>executeDenoCode\<close> records the time): when the temp file cannot be written, the
  result has no elapsed time and the router prints \<^verbatim>\<open>undefinedms\<close>.
\<close>

theorem executeCode_catch_omits_time:
  "snd (executeCode readonly_world ''module.exports = 1;'' 120000)
     = Resolved (caught ''EACCES: permission denied'')
   \<and> executionTimeMs (caught ''EACCES: permission denied'') = None
   \<and> snd (callToolHandler readonly_world
        \<lparr>tool_name = ''executenodejs'',
         arguments = Some (no_args\<lparr>a_code := Some ''module.exports = 1;''\<rparr>)\<rparr>)
     = Resolved [Text ''ERROR: EACCES: permission denied'',
                 Text ''Execution completed in undefinedms with exit code 0'']"
  by (simp add: run_readonly caught_def callToolHandler_def handler_body_def no_args_def effective_args_def
      await_then_def render_execution_def string_of_int_0)

text \<open>
  C4.  The claim asks for the deletion of the temp file on every outcome of a
  commonjs-classified request, the spawn error included.  Both event handlers try it
  (and ignore its failure), but when \<^verbatim>\<open>spawn\<close> itself throws, as it does for the
  timeout \<open>-1\<close>, the file has been written, no handler runs, nothing is deleted and
  the executor rejects.
\<close>

theorem temp_file_left_when_spawn_throws:
  "executeCode spawn_throws_world ''module.exports = 1;'' (- 1) =
     ([WriteFileSync ''/work/temp/node-exec-1001-k3x9.cjs'' ''module.exports = 1;'',
       Spawn ''node'' [''/work/temp/node-exec-1001-k3x9.cjs''] ''/work'' (- 1)],
      Rejected ''The value of timeout is out of range'')
   \<and> \<not> list_ex is_unlink
         [WriteFileSync ''/work/temp/node-exec-1001-k3x9.cjs'' ''module.exports = 1;'',
          Spawn ''node'' [''/work/temp/node-exec-1001-k3x9.cjs''] ''/work'' (- 1)]
   \<and> callToolHandler spawn_throws_world
        \<lparr>tool_name = ''executenodejs'',
         arguments = Some (no_args\<lparr>a_code := Some ''module.exports = 1;'',
                                    a_timeout := Some (- 1)\<rparr>)\<rparr> =
     ([WriteFileSync ''/work/temp/node-exec-1001-k3x9.cjs'' ''module.exports = 1;'',
       Spawn ''node'' [''/work/temp/node-exec-1001-k3x9.cjs''] ''/work'' (- 1)],
      Resolved [Text ''ERROR: The value of timeout is out of range''])"
  by (simp add: run_spawn_throws callToolHandler_def handler_body_def no_args_def
      effective_args_def await_then_def)

text \<open>
  C5.  \<^verbatim>\<open>callToolHandler\<close> never rejects: whatever is thrown in its \<^verbatim>\<open>try\<close> block
  becomes a response of one segment, \<^verbatim>\<open>ERROR: \<close> followed by the message.  A missing
  required argument and an unknown tool name are two such cases, and for the unknown
  tool the segment carries the tool name.
\<close>

theorem handler_never_throws:
  "(\<forall>m. snd (callToolHandler w req) \<noteq> Rejected m)
   \<and> (\<forall>m. snd (handler_body w req) = Rejected m \<longrightarrow>
         snd (callToolHandler w req) = Resolved [Text (''ERROR: '' @ m)])
   \<and> (tool_name req \<in> {''executenodejs'', ''execute'', ''mcp_mcp_repl_execute''}
        \<and> a_code (effective_args req) = None \<longrightarrow>
         callToolHandler w req
           = ([], Resolved [Text ''ERROR: Missing code argument for execute tool'']))
   \<and> (tool_name req \<in> {''executedeno'', ''mcp_mcp_repl_executedeno''}
        \<and> a_code (effective_args req) = None \<longrightarrow>
         callToolHandler w req
           = ([], Resolved [Text ''ERROR: Missing code argument for Deno execute tool'']))
   \<and> (tool_name req \<in> {''searchcode'', ''mcp_mcp_repl_searchcode''}
        \<and> a_query (effective_args req) = None \<longrightarrow>
         callToolHandler w req
           = ([], Resolved [Text ''ERROR: Missing query argument for code search tool'']))
   \<and> (tool_name req \<notin> {''executenodejs'', ''execute'', ''mcp_mcp_repl_execute'',
           ''executedeno'', ''mcp_mcp_repl_executedeno'', ''searchcode'',
           ''mcp_mcp_repl_searchcode''} \<longrightarrow>
         callToolHandler w req
           = ([], Resolved [Text (''ERROR: Unknown tool: '' @ tool_name req)]))"
proof (intro conjI allI impI)
  fix m show "snd (callToolHandler w req) \<noteq> Rejected m"
    by (rule callToolHandler_not_rejected)
next
  fix m assume "snd (handler_body w req) = Rejected m"
  then show "snd (callToolHandler w req) = Resolved [Text (''ERROR: '' @ m)]"
    by (simp add: callToolHandler_catch)
next
  assume "tool_name req \<in> {''executenodejs'', ''execute'', ''mcp_mcp_repl_execute''}
        \<and> a_code (effective_args req) = None"
  then have "handler_body w req = ([], Rejected ''Missing code argument for execute tool'')"
    by (intro handler_missing_node) simp_all
  then show "callToolHandler w req
           = ([], Resolved [Text ''ERROR: Missing code argument for execute tool''])"
    by (simp add: callToolHandler_of_rejected)
next
  assume "tool_name req \<in> {''executedeno'', ''mcp_mcp_repl_executedeno''}
        \<and> a_code (effective_args req) = None"
  then have "handler_body w req = ([], Rejected ''Missing code argument for Deno execute tool'')"
    by (intro handler_missing_deno) simp_all
  then show "callToolHandler w req
           = ([], Resolved [Text ''ERROR: Missing code argument for Deno execute tool''])"
    by (simp add: callToolHandler_of_rejected)
next
  assume "tool_name req \<in> {''searchcode'', ''mcp_mcp_repl_searchcode''}
        \<and> a_query (effective_args req) = None"
  then have "handler_body w req = ([], Rejected ''Missing query argument for code search tool'')"
    by (intro handler_missing_search) simp_all
  then show "callToolHandler w req
           = ([], Resolved [Text ''ERROR: Missing query argument for code search tool''])"
    by (simp add: callToolHandler_of_rejected)
next
  assume "tool_name req \<notin> {''executenodejs'', ''execute'', ''mcp_mcp_repl_execute'',
           ''executedeno'', ''mcp_mcp_repl_executedeno'', ''searchcode'',
           ''mcp_mcp_repl_searchcode''}"
  then have "handler_body w req = ([], Rejected (''Unknown tool: '' @ tool_name req))"
    by (rule handler_unknown)
  then show "callToolHandler w req
           = ([], Resolved [Text (''ERROR: Unknown tool: '' @ tool_name req)])"
    by (simp add: callToolHandler_of_rejected)
qed

theorem handler_never_throws_witness:
  "callToolHandler example_world \<lparr>tool_name = ''no_such_tool'', arguments = None\<rparr>
     = ([], Resolved [Text ''ERROR: Unknown tool: no_such_tool''])
   \<and> callToolHandler example_world \<lparr>tool_name = ''executenodejs'', arguments = None\<rparr>
     = ([], Resolved [Text ''ERROR: Missing code argument for execute tool''])
   \<and> callToolHandler example_world \<lparr>tool_name = ''executedeno'', arguments = None\<rparr>
     = ([], Resolved [Text ''ERROR: Missing code argument for Deno execute tool''])
   \<and> callToolHandler example_world \<lparr>tool_name = ''searchcode'', arguments = None\<rparr>
     = ([], Resolved [Text ''ERROR: Missing query argument for code search tool''])
   \<and> snd (handler_body spawn_throws_world
        \<lparr>tool_name = ''executedeno'', arguments = Some (no_args\<lparr>a_code := Some ''1'', a_timeout := Some (- 1)\<rparr>)\<rparr>)
     = Rejected ''The value of timeout is out of range''
   \<and> snd (callToolHandler spawn_throws_world
        \<lparr>tool_name = ''executedeno'', arguments = Some (no_args\<lparr>a_code := Some ''1'', a_timeout := Some (- 1)\<rparr>)\<rparr>)
     = Resolved [Text ''ERROR: The value of timeout is out of range'']"
  using handler_never_throws [of example_world "\<lparr>tool_name = ''no_such_tool'', arguments = None\<rparr>"]
    handler_never_throws [of example_world "\<lparr>tool_name = ''executenodejs'', arguments = None\<rparr>"]
    handler_never_throws [of example_world "\<lparr>tool_name = ''executedeno'', arguments = None\<rparr>"]
    handler_never_throws [of example_world "\<lparr>tool_name = ''searchcode'', arguments = None\<rparr>"]
    handler_never_throws [of spawn_throws_world
      "\<lparr>tool_name = ''executedeno'', arguments = Some (no_args\<lparr>a_code := Some ''1'', a_timeout := Some (- 1)\<rparr>)\<rparr>"]
  by (simp add: effective_args_def no_args_def handler_body_def await_then_def
      executeDenoCode_def stdin_pipe_def spawn_throws_world_def)

text \<open>
  C6.  When an executor resolves with a result, the content of the response is, in this
  order: the trimmed stdout if stdout is non-empty, \<^verbatim>\<open>ERROR: \<close> and the trimmed stderr
  if stderr is non-empty, \<^verbatim>\<open>ERROR: \<close> and the error message if there is one, and last
  the summary with the elapsed time and the exit code, 0 standing for an absent code.
\<close>

theorem execution_content_order:
  assumes "(tool_name req \<in> {''executenodejs'', ''execute'', ''mcp_mcp_repl_execute''}
              \<and> executeCode w src timeout = (effs, Resolved r) \<and> label = ''Execution'')
         \<or> (tool_name req \<in> {''executedeno'', ''mcp_mcp_repl_executedeno''}
              \<and> executeDenoCode w src timeout = (effs, Resolved r) \<and> label = ''Deno execution'')"
    and "a_code (effective_args req) = Some src" and "src \<noteq> []"
    and "timeout = (case a_timeout (effective_args req) of None \<Rightarrow> 120000 | Some t \<Rightarrow> t)"
  shows "callToolHandler w req =
     (effs, Resolved (
        (if truthy (stdout r) then [Text (trim (the (stdout r)))] else [])
      @ (if truthy (stderr r) then [Text (''ERROR: '' @ trim (the (stderr r)))] else [])
      @ (if truthy (error r) then [Text (''ERROR: '' @ the (error r))] else [])
      @ [Text (label @ '' completed in '' @ string_of_number (executionTimeMs r)
               @ ''ms with exit code ''
               @ string_of_int (case code r of None \<Rightarrow> 0 | Some c \<Rightarrow> c))]))"
proof -
  from assms(1) have "executeCode w src timeout = (effs, Resolved r)
      \<or> executeDenoCode w src timeout = (effs, Resolved r)" by blast
  then have "error r \<noteq> None \<longrightarrow> \<not> success r" by (rule executor_error_not_success)
  then have parts: "render_execution label r =
      (if truthy (stdout r) then [Text (trim (the (stdout r)))] else [])
    @ (if truthy (stderr r) then [Text (''ERROR: '' @ trim (the (stderr r)))] else [])
    @ (if truthy (error r) then [Text (''ERROR: '' @ the (error r))] else [])
    @ [Text (label @ '' completed in '' @ string_of_number (executionTimeMs r)
             @ ''ms with exit code ''
             @ string_of_int (case code r of None \<Rightarrow> 0 | Some c \<Rightarrow> c))]"
    by (rule render_execution_parts)
  from assms have "handler_body w req = (effs, Resolved (render_execution label r))"
    by (auto simp: handler_body_def Let_def await_then_def)
  then have "callToolHandler w req = (effs, Resolved (render_execution label r))"
    by (simp add: callToolHandler_def)
  with parts show ?thesis by simp
qed

theorem execution_content_order_witness:
  "callToolHandler failing_script_world
     \<lparr>tool_name = ''executenodejs'', arguments = Some (no_args\<lparr>a_code := Some ''console.log(1+1)''\<rparr>)\<rparr>
   = ([Spawn ''node'' [''--input-type=module''] ''/work'' 120000,
       StdinWrite ''console.log(1+1)'', StdinEnd],
      Resolved [Text ''partial'', Text ''ERROR: boom'',
                Text ''Execution completed in 42ms with exit code 1''])
   \<and> callToolHandler missing_binary_world
     \<lparr>tool_name = ''executedeno'', arguments = Some (no_args\<lparr>a_code := Some ''console.log(1+1)''\<rparr>)\<rparr>
   = ([Spawn ''deno'' [''run'', ''--allow-all'', ''-''] ''/work'' 120000,
       StdinWrite ''console.log(1+1)'', StdinEnd],
      Resolved [Text ''ERROR: spawn deno ENOENT'',
                Text ''Deno execution completed in 42ms with exit code 0''])"
  using execution_content_order [of
      "\<lparr>tool_name = ''executenodejs'', arguments = Some (no_args\<lparr>a_code := Some ''console.log(1+1)''\<rparr>)\<rparr>"
      failing_script_world "''console.log(1+1)''" 120000 _ _ "''Execution''"]
    execution_content_order [of
      "\<lparr>tool_name = ''executedeno'', arguments = Some (no_args\<lparr>a_code := Some ''console.log(1+1)''\<rparr>)\<rparr>"
      missing_binary_world "''console.log(1+1)''" 120000 _ _ "''Deno execution''"]
  by (simp add: run_failing_script run_missing_binary effective_args_def no_args_def
      trim_def is_ws_def string_of_int_42 string_of_int_1 string_of_int_0)

text \<open>
  C7.  \<^verbatim>\<open>executeDenoCode\<close> does not classify the source: it spawns \<^verbatim>\<open>deno\<close> with
  \<^verbatim>\<open>run --allow-all -\<close> and, once the child exists, writes the whole source to its
  stdin and ends it.  Nothing in this depends on the markers of C1.
\<close>

theorem deno_always_stdin_pipe:
  "fst (executeDenoCode w src timeout) =
     Spawn ''deno'' [''run'', ''--allow-all'', ''-''] (workingDir w) timeout
     # (if spawn_throw w = None then [StdinWrite src, StdinEnd] else [])"
  by (simp add: executeDenoCode_def stdin_pipe_def Let_def split: option.splits)

theorem deno_always_stdin_pipe_witness:
  "fst (executeDenoCode example_world ''module.exports = 1;'' 5000) =
     [Spawn ''deno'' [''run'', ''--allow-all'', ''-''] ''/work'' 5000,
      StdinWrite ''module.exports = 1;'', StdinEnd]"
  using deno_always_stdin_pipe [of example_world "''module.exports = 1;''" 5000]
  by simp

text \<open>
  C8, as amended.  For a search request, a folder, extension or ignore argument that is
  omitted (or empty) gives the default: the working directory, \<^verbatim>\<open>js, ts\<close>,
  \<^verbatim>\<open>node_modules\<close>; \<^verbatim>\<open>topK\<close> omitted (or 0) gives 8.  A non-empty argument is split on
  commas and each piece trimmed; each folder is then resolved to an absolute path and
  each extension loses one leading dot.  With these values the index is synchronised
  and then queried.
\<close>

theorem search_defaults_resolved:
  assumes "tool_name req \<in> {''searchcode'', ''mcp_mcp_repl_searchcode''}"
    and "a_query (effective_args req) = Some query" and "query \<noteq> []"
    and "indexer_load w = None" and "sync_outcome w = Resolved ()"
    and "folders = a_folders (effective_args req)"
    and "extensions = a_extensions (effective_args req)"
    and "ignores = a_ignores (effective_args req)"
    and "topK = a_topK (effective_args req)"
  shows "fst (callToolHandler w req) =
     [SyncIndex
        (if truthy folders
         then map (\<lambda>f. path_resolve w (trim f)) (split CHR '','' (the folders))
         else [workingDir w])
        (if truthy extensions
         then map (\<lambda>e. strip_dot (trim e)) (split CHR '','' (the extensions))
         else [''js'', ''ts''])
        (if truthy ignores
         then map trim (split CHR '','' (the ignores))
         else [''node_modules'']),
      QueryIndex query (if topK = None \<or> topK = Some 0 then 8 else the topK)]"
proof -
  have f: "searchFolders w folders =
        (if truthy folders
         then map (\<lambda>f. path_resolve w (trim f)) (split CHR '','' (the folders))
         else [workingDir w])"
    by (cases folders) (simp_all add: searchFolders_def)
  have e: "searchExts extensions =
        (if truthy extensions
         then map (\<lambda>e. strip_dot (trim e)) (split CHR '','' (the extensions))
         else [''js'', ''ts''])"
    by (cases extensions) (simp_all add: searchExts_def)
  have i: "searchIgnores ignores =
        (if truthy ignores
         then map trim (split CHR '','' (the ignores))
         else [''node_modules''])"
    by (cases ignores) (simp_all add: searchIgnores_def)
  have k: "topK_or_8 topK = (if topK = None \<or> topK = Some 0 then 8 else the topK)"
    by (cases topK) simp_all
  from assms have "fst (handler_body w req) =
      fst (performCodeSearch w query folders extensions ignores topK)"
    by (auto simp: handler_body_def Let_def)
  then show ?thesis
    using performCodeSearch_calls [OF assms(4,5)] f e i k
    by (simp add: fst_callToolHandler)
qed

theorem search_defaults_resolved_witness:
  "fst (callToolHandler example_world
     \<lparr>tool_name = ''searchcode'', arguments = Some (no_args\<lparr>a_query := Some ''parse config''\<rparr>)\<rparr>)
   = [SyncIndex [''/work''] [''js'', ''ts''] [''node_modules''], QueryIndex ''parse config'' 8]
   \<and> fst (callToolHandler example_world
     \<lparr>tool_name = ''searchcode'',
      arguments = Some (no_args\<lparr>a_query := Some ''parse config'', a_folders := Some ''src, lib'',
                   a_extensions := Some ''.js, ts '', a_ignores := Some '' dist,build'',
                   a_topK := Some 3\<rparr>)\<rparr>)
   = [SyncIndex [''/work/src'', ''/work/lib''] [''js'', ''ts''] [''dist'', ''build''],
      QueryIndex ''parse config'' 3]"
  using search_defaults_resolved [of
      "\<lparr>tool_name = ''searchcode'', arguments = Some (no_args\<lparr>a_query := Some ''parse config''\<rparr>)\<rparr>"
      "''parse config''" example_world None None None None]
    search_defaults_resolved [of
      "\<lparr>tool_name = ''searchcode'',
      arguments = Some (no_args\<lparr>a_query := Some ''parse config'', a_folders := Some ''src, lib'',
                   a_extensions := Some ''.js, ts '', a_ignores := Some '' dist,build'',
                   a_topK := Some 3\<rparr>)\<rparr>"
      "''parse config''" example_world "Some ''src, lib''" "Some ''.js, ts ''" "Some '' dist,build''" "Some 3"]
  by (simp add: effective_args_def no_args_def trim_def is_ws_def)

text \<open>
  C8 as stated fails: the extension argument \<^verbatim>\<open>.js\<close> reaches the index as
  \<^verbatim>\<open>js\<close>, which is not the trimmed piece, and a supplied empty extension argument
  gives the default instead of its one empty piece.
\<close>

theorem extensions_lose_leading_dot:
  "fst (performCodeSearch example_world ''parse config'' None (Some ''.js'') None None)
     = [SyncIndex [''/work''] [''js''] [''node_modules''], QueryIndex ''parse config'' 8]
   \<and> map trim (split CHR '','' ''.js'') = [''.js'']
   \<and> fst (performCodeSearch example_world ''parse config'' None (Some ''.js'') None None)
     \<noteq> [SyncIndex [''/work''] (map trim (split CHR '','' ''.js'')) [''node_modules''],
         QueryIndex ''parse config'' 8]
   \<and> searchExts (Some []) = [''js'', ''ts'']
   \<and> searchExts (Some []) \<noteq> map trim (split CHR '','' [])"
  by (simp add: performCodeSearch_def searchFolders_def searchExts_def searchIgnores_def
      trim_def is_ws_def Let_def)

text \<open>
  C9, as amended.  For requests served by one server (one working directory, one
  \<^verbatim>\<open>path.join\<close>), if \<^verbatim>\<open>path.join\<close> maps the different file names generated for these
  requests to different paths, then the temp-file paths are pairwise distinct exactly
  when the pairs of timestamp and random text are.
\<close>

theorem temp_paths_distinct:
  assumes "\<forall>w \<in> set ws. workingDir w = wd \<and> path_join w = pj"
    and "inj_on (pj (pj wd ''temp''))
           ((\<lambda>w. tempName (now_name w) (random_suffix w)) ` set ws)"
  shows "distinct (map tempFile ws) \<longleftrightarrow> distinct (map (\<lambda>w. (now_name w, random_suffix w)) ws)"
proof -
  have "(\<lambda>w. (now_name w, random_suffix w)) = temp_key" by (simp add: temp_key_def fun_eq_iff)
  then show ?thesis
    using tempFile_inj_on [OF assms] by (simp only: distinct_map)
qed

theorem temp_paths_distinct_witness:
  "distinct (map tempFile [posix_world, posix_world_b])"
proof -
  have a: "\<forall>w \<in> set [posix_world, posix_world_b].
      workingDir w = ''/work'' \<and> path_join w = posix_join"
    by (simp add: posix_world_def posix_world_b_def)
  have b: "inj_on (posix_join (posix_join ''/work'' ''temp''))
      ((\<lambda>w. tempName (now_name w) (random_suffix w)) ` set [posix_world, posix_world_b])"
    by (simp add: posix_world_def posix_world_b_def tempName_def string_of_int_1001
        posix_join_temp posix_join_k3x9 posix_join_zz81)
  have c: "distinct (map (\<lambda>w. (now_name w, random_suffix w)) [posix_world, posix_world_b])"
    by (simp add: posix_world_def posix_world_b_def)
  from temp_paths_distinct [OF a b] c show ?thesis by blast
qed

text \<open>
  C9 as stated fails: two requests that read the same clock value and draw the same
  random text get the same temp-file path.
\<close>

theorem temp_paths_collide:
  "now_start example_world \<noteq> now_start second_request_world
   \<and> \<not> distinct (map tempFile [example_world, second_request_world])"
  by (simp add: tempFile_def tempDir_def)

text \<open>
  C10.  An execution request whose \<^verbatim>\<open>code\<close> is the empty string, and a search
  request whose \<^verbatim>\<open>query\<close> is the empty string, are answered exactly as when the
  argument is absent: one error segment about the missing argument, and nothing is
  spawned, synchronised or queried.
\<close>

theorem empty_argument_is_missing:
  "(tool_name req \<in> {''executenodejs'', ''execute'', ''mcp_mcp_repl_execute''}
      \<and> arguments req = Some a \<and> a_code a = Some [] \<longrightarrow>
        callToolHandler w req
          = ([], Resolved [Text ''ERROR: Missing code argument for execute tool''])
        \<and> callToolHandler w req = callToolHandler w (req\<lparr>arguments := Some (a\<lparr>a_code := None\<rparr>)\<rparr>))
   \<and> (tool_name req \<in> {''executedeno'', ''mcp_mcp_repl_executedeno''}
      \<and> arguments req = Some a \<and> a_code a = Some [] \<longrightarrow>
        callToolHandler w req
          = ([], Resolved [Text ''ERROR: Missing code argument for Deno execute tool''])
        \<and> callToolHandler w req = callToolHandler w (req\<lparr>arguments := Some (a\<lparr>a_code := None\<rparr>)\<rparr>))
   \<and> (tool_name req \<in> {''searchcode'', ''mcp_mcp_repl_searchcode''}
      \<and> arguments req = Some a \<and> a_query a = Some [] \<longrightarrow>
        callToolHandler w req
          = ([], Resolved [Text ''ERROR: Missing query argument for code search tool''])
        \<and> callToolHandler w req = callToolHandler w (req\<lparr>arguments := Some (a\<lparr>a_query := None\<rparr>)\<rparr>))"
proof (intro conjI impI)
  assume h: "tool_name req \<in> {''executenodejs'', ''execute'', ''mcp_mcp_repl_execute''}
      \<and> arguments req = Some a \<and> a_code a = Some []"
  then have "handler_body w req = ([], Rejected ''Missing code argument for execute tool'')"
    by (intro handler_missing_node) (simp_all add: effective_args_def)
  then show 1: "callToolHandler w req
          = ([], Resolved [Text ''ERROR: Missing code argument for execute tool''])"
    by (simp add: callToolHandler_of_rejected)
  from h have "handler_body w (req\<lparr>arguments := Some (a\<lparr>a_code := None\<rparr>)\<rparr>)
      = ([], Rejected ''Missing code argument for execute tool'')"
    by (intro handler_missing_node) (simp_all add: effective_args_def)
  with 1 show "callToolHandler w req = callToolHandler w (req\<lparr>arguments := Some (a\<lparr>a_code := None\<rparr>)\<rparr>)"
    by (simp add: callToolHandler_of_rejected)
next
  assume h: "tool_name req \<in> {''executedeno'', ''mcp_mcp_repl_executedeno''}
      \<and> arguments req = Some a \<and> a_code a = Some []"
  then have "handler_body w req = ([], Rejected ''Missing code argument for Deno execute tool'')"
    by (intro handler_missing_deno) (simp_all add: effective_args_def)
  then show 1: "callToolHandler w req
          = ([], Resolved [Text ''ERROR: Missing code argument for Deno execute tool''])"
    by (simp add: callToolHandler_of_rejected)
  from h have "handler_body w (req\<lparr>arguments := Some (a\<lparr>a_code := None\<rparr>)\<rparr>)
      = ([], Rejected ''Missing code argument for Deno execute tool'')"
    by (intro handler_missing_deno) (simp_all add: effective_args_def)
  with 1 show "callToolHandler w req = callToolHandler w (req\<lparr>arguments := Some (a\<lparr>a_code := None\<rparr>)\<rparr>)"
    by (simp add: callToolHandler_of_rejected)
next
  assume h: "tool_name req \<in> {''searchcode'', ''mcp_mcp_repl_searchcode''}
      \<and> arguments req = Some a \<and> a_query a = Some []"
  then have "handler_body w req = ([], Rejected ''Missing query argument for code search tool'')"
    by (intro handler_missing_search) (simp_all add: effective_args_def)
  then show 1: "callToolHandler w req
          = ([], Resolved [Text ''ERROR: Missing query argument for code search tool''])"
    by (simp add: callToolHandler_of_rejected)
  from h have "handler_body w (req\<lparr>arguments := Some (a\<lparr>a_query := None\<rparr>)\<rparr>)
      = ([], Rejected ''Missing query argument for code search tool'')"
    by (intro handler_missing_search) (simp_all add: effective_args_def)
  with 1 show "callToolHandler w req = callToolHandler w (req\<lparr>arguments := Some (a\<lparr>a_query := None\<rparr>)\<rparr>)"
    by (simp add: callToolHandler_of_rejected)
qed

theorem empty_argument_is_missing_witness:
  "callToolHandler example_world
     \<lparr>tool_name = ''executenodejs'', arguments = Some (no_args\<lparr>a_code := Some []\<rparr>)\<rparr>
     = ([], Resolved [Text ''ERROR: Missing code argument for execute tool''])
   \<and> callToolHandler example_world
     \<lparr>tool_name = ''executedeno'', arguments = Some (no_args\<lparr>a_code := Some []\<rparr>)\<rparr>
     = ([], Resolved [Text ''ERROR: Missing code argument for Deno execute tool''])
   \<and> callToolHandler example_world
     \<lparr>tool_name = ''searchcode'', arguments = Some (no_args\<lparr>a_query := Some []\<rparr>)\<rparr>
     = ([], Resolved [Text ''ERROR: Missing query argument for code search tool''])"
  using empty_argument_is_missing [of
      "\<lparr>tool_name = ''executenodejs'', arguments = Some (no_args\<lparr>a_code := Some []\<rparr>)\<rparr>"
      "no_args\<lparr>a_code := Some []\<rparr>" example_world]
    empty_argument_is_missing [of
      "\<lparr>tool_name = ''executedeno'', arguments = Some (no_args\<lparr>a_code := Some []\<rparr>)\<rparr>"
      "no_args\<lparr>a_code := Some []\<rparr>" example_world]
    empty_argument_is_missing [of
      "\<lparr>tool_name = ''searchcode'', arguments = Some (no_args\<lparr>a_query := Some []\<rparr>)\<rparr>"
      "no_args\<lparr>a_query := Some []\<rparr>" example_world]
  by (simp add: no_args_def)

end
